theory Spec2Isabelle
  imports Complex_Main "HOL-Library.AList"
begin

section \<open>Python values\<close>

text \<open>
  Every structured value of the program is a tree of dictionaries, lists, strings,
  numbers, booleans and \<open>None\<close>: what \<open>json.loads\<close> returns and what the agents
  hand to each other. A dictionary is an association list: Python dictionaries keep
  their insertion order, \<open>map_of\<close> is the lookup and \<open>AList.update\<close> is the item
  assignment (it overwrites in place, or appends a new key at the end).

  Numbers: Python's \<open>int\<close> is \<open>int\<close>; Python's \<open>float\<close> is modelled by the exact
  real it denotes, so the rounding error of IEEE doubles, infinities, NaN and the
  overflow of a conversion to \<open>float\<close> are outside the model.
\<close>

datatype json =
    JNull
  | JBool bool
  | JInt int
  | JFloat real
  | JStr string
  | JList "json list"
  | JDict "(string \<times> json) list"

text \<open>
  Exceptions are values. Only subclasses of \<open>Exception\<close> are modelled; \<open>Raised c m\<close>
  is an exception of class \<open>c\<close> raised by a delegated capability (language model,
  speech synthesis, media library, file system). The string is what \<open>str(e)\<close>
  returns; the texts of the interpreter's own messages are abbreviated.
\<close>

datatype exn =
    TypeError string
  | AttributeError string
  | KeyError string
  | ValueError string
  | Raised string string

fun str_of_exn :: "exn \<Rightarrow> string" where
  "str_of_exn (TypeError m) = m"
| "str_of_exn (AttributeError m) = m"
| "str_of_exn (KeyError m) = m"
| "str_of_exn (ValueError m) = m"
| "str_of_exn (Raised c m) = m"

text \<open>What the loggers receive, as far as the properties below look at it.\<close>

datatype log_event =
    TimingMismatch real json
  | JsonParseError
  | ParseWarning

subsection \<open>Operations of the interpreter\<close>

text \<open>\<open>isinstance(x, (int, float))\<close>: \<open>bool\<close> is a subclass of \<open>int\<close>.\<close>

fun is_number :: "json \<Rightarrow> bool" where
  "is_number (JInt n) = True"
| "is_number (JFloat r) = True"
| "is_number (JBool b) = True"
| "is_number v = False"

text \<open>\<open>float(x)\<close> for an \<open>x\<close> that passed \<open>isinstance(x, (int, float))\<close>.\<close>

fun num :: "json \<Rightarrow> real" where
  "num (JInt n) = of_int n"
| "num (JFloat r) = r"
| "num (JBool b) = (if b then 1 else 0)"
| "num v = 0"

text \<open>The truth value of an object.\<close>

fun truthy :: "json \<Rightarrow> bool" where
  "truthy JNull = False"
| "truthy (JBool b) = b"
| "truthy (JInt n) = (n \<noteq> 0)"
| "truthy (JFloat r) = (r \<noteq> 0)"
| "truthy (JStr s) = (s \<noteq> [])"
| "truthy (JList xs) = (xs \<noteq> [])"
| "truthy (JDict d) = (d \<noteq> [])"

text \<open>\<open>x or y\<close>.\<close>

definition py_or :: "json \<Rightarrow> json \<Rightarrow> json" where
  "py_or x y = (if truthy x then x else y)"

text \<open>\<open>x.get(k, default)\<close>: only a dictionary has the method.\<close>

fun py_get :: "json \<Rightarrow> string \<Rightarrow> json \<Rightarrow> exn + json" where
  "py_get (JDict d) k dflt = Inr (case map_of d k of Some v \<Rightarrow> v | None \<Rightarrow> dflt)"
| "py_get v k dflt = Inl (AttributeError ''object has no attribute get'')"

text \<open>\<open>x[k]\<close> for a string key \<open>k\<close>.\<close>

fun py_getitem :: "json \<Rightarrow> string \<Rightarrow> exn + json" where
  "py_getitem (JDict d) k = (case map_of d k of Some v \<Rightarrow> Inr v | None \<Rightarrow> Inl (KeyError k))"
| "py_getitem (JList xs) k = Inl (TypeError ''list indices must be integers or slices, not str'')"
| "py_getitem (JStr s) k = Inl (TypeError ''string indices must be integers, not str'')"
| "py_getitem v k = Inl (TypeError ''object is not subscriptable'')"

text \<open>\<open>x[k] = v\<close> for a string key \<open>k\<close>.\<close>

fun py_setitem :: "json \<Rightarrow> string \<Rightarrow> json \<Rightarrow> exn + json" where
  "py_setitem (JDict d) k v = Inr (JDict (AList.update k v d))"
| "py_setitem (JList xs) k v = Inl (TypeError ''list indices must be integers or slices, not str'')"
| "py_setitem x k v = Inl (TypeError ''object does not support item assignment'')"

text \<open>\<open>x.setdefault(k, v)\<close>, as a statement.\<close>

fun py_setdefault :: "json \<Rightarrow> string \<Rightarrow> json \<Rightarrow> exn + json" where
  "py_setdefault (JDict d) k v =
     Inr (JDict (case map_of d k of Some u \<Rightarrow> d | None \<Rightarrow> AList.update k v d))"
| "py_setdefault x k v = Inl (AttributeError ''object has no attribute setdefault'')"

text \<open>\<open>k in x\<close> for a string \<open>k\<close>: a key of a dictionary, an element of a list, a
  substring of a string; every other object is not iterable.\<close>

fun is_substring :: "string \<Rightarrow> string \<Rightarrow> bool" where
  "is_substring p [] = (p = [])"
| "is_substring p (c # cs) = (take (length p) (c # cs) = p \<or> is_substring p cs)"

fun py_in :: "string \<Rightarrow> json \<Rightarrow> exn + bool" where
  "py_in k (JDict d) = Inr (map_of d k \<noteq> None)"
| "py_in k (JList xs) = Inr (JStr k \<in> set xs)"
| "py_in k (JStr s) = Inr (is_substring k s)"
| "py_in k v = Inl (TypeError ''argument is not iterable'')"

text \<open>\<open>x == y\<close>: numbers are compared by value whatever their type, lists element by
  element, dictionaries key by key whatever the order of their keys.\<close>

fun py_eq :: "json \<Rightarrow> json \<Rightarrow> bool" where
  "py_eq JNull JNull = True"
| "py_eq (JStr a) (JStr b) = (a = b)"
| "py_eq (JList xs) (JList ys) = list_all2 py_eq xs ys"
| "py_eq (JDict d) (JDict e) =
     (set (map fst d) = set (map fst e) \<and>
      list_all (\<lambda>kv. case map_of e (fst kv) of None \<Rightarrow> False | Some v' \<Rightarrow> py_eq (snd kv) v') d)"
| "py_eq a b = (is_number a \<and> is_number b \<and> num a = num b)"

text \<open>\<open>x in xs\<close> for a list \<open>xs\<close>.\<close>

definition py_member :: "json \<Rightarrow> json list \<Rightarrow> bool" where
  "py_member x xs = list_ex (py_eq x) xs"

text \<open>The elements that iterating over an object yields: the elements of a list, the
  characters of a string, the keys of a dictionary.\<close>

fun py_iter :: "json \<Rightarrow> exn + json list" where
  "py_iter (JList xs) = Inr xs"
| "py_iter (JStr s) = Inr (map (\<lambda>c. JStr [c]) s)"
| "py_iter (JDict d) = Inr (map (\<lambda>kv. JStr (fst kv)) d)"
| "py_iter v = Inl (TypeError ''object is not iterable'')"

text \<open>\<open>len(x)\<close>.\<close>

fun py_len :: "json \<Rightarrow> exn + nat" where
  "py_len (JList xs) = Inr (length xs)"
| "py_len (JStr s) = Inr (length s)"
| "py_len (JDict d) = Inr (length d)"
| "py_len v = Inl (TypeError ''object has no len()'')"

text \<open>Sequencing of expressions that may raise.\<close>

definition bind_exn :: "exn + 'a \<Rightarrow> ('a \<Rightarrow> exn + 'b) \<Rightarrow> exn + 'b" where
  "bind_exn r f = (case r of Inl e \<Rightarrow> Inl e | Inr a \<Rightarrow> f a)"

text \<open>\<open>round(x, n)\<close> on a float: to the nearest multiple of \<open>10 ^ - n\<close>, a tie to the
  even one.\<close>

definition py_round :: "real \<Rightarrow> nat \<Rightarrow> real" where
  "py_round x n =
     (let y = x * 10 ^ n; f = \<lfloor>y\<rfloor>; d = y - of_int f
      in (if d < 1 / 2 then of_int f
          else if d > 1 / 2 then of_int (f + 1)
          else if even f then of_int f else of_int (f + 1)) / 10 ^ n)"

subsection \<open>Strings\<close>

text \<open>The white space of \<open>str.strip()\<close> and of the pattern \<open>\s\<close>, within ASCII.\<close>

definition is_space :: "char \<Rightarrow> bool" where
  "is_space c = (c \<in> {CHR '' '', CHR 0x09, CHR 0x0A, CHR 0x0B, CHR 0x0C, CHR 0x0D,
                       CHR 0x1C, CHR 0x1D, CHR 0x1E, CHR 0x1F})"

definition strip :: "string \<Rightarrow> string" where
  "strip s = rev (dropWhile is_space (rev (dropWhile is_space s)))"

text \<open>The pattern \<open>(?:json)?\<close> under \<open>re.IGNORECASE\<close>.\<close>

fun json_tag :: "string \<Rightarrow> bool" where
  "json_tag (a # b # c # d # r) =
     ((a = CHR ''j'' \<or> a = CHR ''J'') \<and> (b = CHR ''s'' \<or> b = CHR ''S'') \<and>
      (c = CHR ''o'' \<or> c = CHR ''O'') \<and> (d = CHR ''n'' \<or> d = CHR ''N''))"
| "json_tag s = False"

text \<open>\<open>re.sub(r"^```(?:json)?\s*", "", s, flags=re.IGNORECASE)\<close>.\<close>

definition strip_leading_fence :: "string \<Rightarrow> string" where
  "strip_leading_fence s =
     (if take 3 s = ''```''
      then (let r = drop 3 s; r' = (if json_tag r then drop 4 r else r)
            in dropWhile is_space r')
      else s)"

text \<open>\<open>re.sub(r"\s*```$", "", s)\<close>: \<open>$\<close> stands at the end of the string, or before a
  newline that ends it; the match starts where the white space before the fence starts.\<close>

definition rstrip :: "string \<Rightarrow> string" where
  "rstrip s = rev (dropWhile is_space (rev s))"

definition strip_trailing_fence :: "string \<Rightarrow> string" where
  "strip_trailing_fence s =
     (let n = length s in
      if 3 \<le> n \<and> drop (n - 3) s = ''```'' then rstrip (take (n - 3) s)
      else if 4 \<le> n \<and> drop (n - 4) s = ''```'' @ [CHR 0x0A] then rstrip (take (n - 4) s) @ [CHR 0x0A]
      else s)"

text \<open>The first three statements of every parsing routine.\<close>

definition strip_fences :: "string \<Rightarrow> string" where
  "strip_fences response = strip_trailing_fence (strip_leading_fence (strip response))"

text \<open>\<open>s.find(c)\<close> and \<open>s.rfind(c)\<close> for a one-character \<open>c\<close>: an index, or \<open>-1\<close>.\<close>

fun find_from :: "nat \<Rightarrow> char \<Rightarrow> string \<Rightarrow> int" where
  "find_from i c [] = - 1"
| "find_from i c (x # xs) = (if x = c then int i else find_from (Suc i) c xs)"

definition py_find :: "string \<Rightarrow> char \<Rightarrow> int" where
  "py_find s c = find_from 0 c s"

definition py_rfind :: "string \<Rightarrow> char \<Rightarrow> int" where
  "py_rfind s c =
     (let r = find_from 0 c (rev s) in if r = - 1 then - 1 else int (length s) - 1 - r)"

text \<open>\<open>s[i:j]\<close> for \<open>0 \<le> i\<close> and \<open>0 \<le> j\<close>.\<close>

definition py_slice :: "string \<Rightarrow> int \<Rightarrow> int \<Rightarrow> string" where
  "py_slice s i j = take (nat (j - i)) (drop (nat i) s)"

section \<open>The script analyzer\<close>

text \<open>
  \<open>json.loads\<close> is a parameter \<open>loads\<close> of every parsing routine: \<open>None\<close> is
  \<open>json.JSONDecodeError\<close>, the exception it raises on a text that is not a JSON document.
  It is taken to raise nothing else: the interpreter's limits on the depth of a document
  and on the digits of an integer are outside the model.
\<close>

type_synonym loader = "string \<Rightarrow> json option"

text \<open>The loop of \<open>_validate_timing\<close> over the scenes (lines 161 to 165); \<open>tot\<close>
  is its accumulator, the source's \<open>total\<close>.\<close>

fun sum_durations :: "json list \<Rightarrow> real \<Rightarrow> exn + real" where
  "sum_durations [] tot = Inr tot"
| "sum_durations (s # ss) tot =
     (case py_get s ''duration'' JNull of
        Inl e \<Rightarrow> Inl e
      | Inr dur \<Rightarrow> sum_durations ss (if is_number dur then tot + num dur else tot))"

text \<open>Lines 175 to 180, on \<open>last = analysis["scenes"][-1]\<close>: the scene as left by the
  assignments.\<close>

definition adjust_last :: "json \<Rightarrow> real \<Rightarrow> exn + json" where
  "adjust_last lst delta =
     (case py_get lst ''duration'' JNull of
        Inl e \<Rightarrow> Inl e
      | Inr dur \<Rightarrow>
          if is_number dur then
            (case py_setitem lst ''duration'' (JFloat (py_round (num dur + delta) 2)) of
               Inl e \<Rightarrow> Inl e
             | Inr lst1 \<Rightarrow>
                 (case py_get lst1 ''start_time'' JNull of
                    Inl e \<Rightarrow> Inl e
                  | Inr st \<Rightarrow>
                      if is_number st then
                        (case py_getitem lst1 ''duration'' of
                           Inl e \<Rightarrow> Inl e
                         | Inr d1 \<Rightarrow>
                             py_setitem lst1 ''end_time'' (JFloat (py_round (num st + num d1) 2)))
                      else Inr lst1))
          else Inr lst)"

text \<open>\<open>_validate_timing\<close> returns nothing and changes \<open>analysis\<close> in place: the model
  returns the analysis as the call leaves it, and what it logged. An exception leaves
  the analysis as it was (every raising statement comes before the first assignment).\<close>

definition validate_timing :: "json \<Rightarrow> exn + json \<times> log_event list" where
  "validate_timing analysis =
     (case py_in ''scenes'' analysis of
        Inl e \<Rightarrow> Inl e
      | Inr False \<Rightarrow> Inr (analysis, [])
      | Inr True \<Rightarrow>
          (case py_getitem analysis ''scenes'' of
             Inl e \<Rightarrow> Inl e
           | Inr sc \<Rightarrow>
               (case sc of
                  JList scenes \<Rightarrow>
                    (case py_get analysis ''total_duration'' JNull of
                       Inl e \<Rightarrow> Inl e
                     | Inr target \<Rightarrow>
                         if \<not> is_number target then Inr (analysis, [])
                         else
                           (case sum_durations scenes 0 of
                              Inl e \<Rightarrow> Inl e
                            | Inr tot \<Rightarrow>
                                let logged = (if \<bar>tot - num target\<bar> > 1
                                              then [TimingMismatch tot target] else [])
                                in if scenes \<noteq> [] \<and> \<bar>tot - num target\<bar> \<le> 1
                                   then
                                     (case adjust_last (last scenes) (num target - tot) of
                                        Inl e \<Rightarrow> Inl e
                                      | Inr lst' \<Rightarrow>
                                          (case py_setitem analysis ''scenes''
                                                  (JList (butlast scenes @ [lst'])) of
                                             Inl e \<Rightarrow> Inl e
                                           | Inr analysis' \<Rightarrow> Inr (analysis', logged)))
                                   else Inr (analysis, logged)))
                | _ \<Rightarrow> Inr (analysis, []))))"

text \<open>\<open>_parse_analysis_response\<close>: the call of \<open>_validate_timing\<close> stands inside a
  \<open>try\<close> whose handler catches \<open>json.JSONDecodeError\<close> only, so what it raises leaves the
  routine.\<close>

definition parse_analysis_response :: "loader \<Rightarrow> string \<Rightarrow> exn + json \<times> log_event list" where
  "parse_analysis_response loads response =
     (let cleaned = strip_fences response in
      case loads cleaned of
        Some analysis \<Rightarrow> validate_timing analysis
      | None \<Rightarrow>
          (let start_idx = py_find cleaned CHR ''{'';
               end_idx = py_rfind cleaned CHR ''}'' + 1
           in if start_idx \<noteq> - 1 \<and> end_idx > start_idx
              then (case loads (py_slice cleaned start_idx end_idx) of
                      Some analysis \<Rightarrow> validate_timing analysis
                    | None \<Rightarrow> Inr (JDict [(''raw_response'', JStr response)], [JsonParseError]))
              else Inr (JDict [(''raw_response'', JStr response)], [])))"

section \<open>The creative director and the visual designer\<close>

text \<open>\<open>CreativeDirectorAgent._parse_creative_response\<close>: both handlers catch
  \<open>json.JSONDecodeError\<close>, and nothing else is called inside the \<open>try\<close> statements.\<close>

definition parse_creative_response :: "loader \<Rightarrow> string \<Rightarrow> exn + json \<times> log_event list" where
  "parse_creative_response loads response =
     (let cleaned = strip_fences response in
      case loads cleaned of
        Some brief \<Rightarrow> Inr (brief, [])
      | None \<Rightarrow>
          (let start_idx = py_find cleaned CHR ''{'';
               end_idx = py_rfind cleaned CHR ''}'' + 1
           in if start_idx \<noteq> - 1 \<and> end_idx > start_idx
              then (case loads (py_slice cleaned start_idx end_idx) of
                      Some brief \<Rightarrow> Inr (brief, [])
                    | None \<Rightarrow> Inr (JDict [(''raw_response'', JStr response)], [ParseWarning]))
              else Inr (JDict [(''raw_response'', JStr response)], [])))"

text \<open>\<open>VisualDesignerAgent._parse_json_response\<close>: the caller supplies the fallback.\<close>

definition visual_parse_json_response ::
  "loader \<Rightarrow> string \<Rightarrow> json \<Rightarrow> exn + json \<times> log_event list" where
  "visual_parse_json_response loads response fallback =
     (let cleaned = strip_fences response in
      case loads cleaned of
        Some v \<Rightarrow> Inr (v, [])
      | None \<Rightarrow>
          (let start_idx = py_find cleaned CHR ''{'';
               end_idx = py_rfind cleaned CHR ''}'' + 1
           in if start_idx \<noteq> - 1 \<and> end_idx > start_idx
              then (case loads (py_slice cleaned start_idx end_idx) of
                      Some v \<Rightarrow> Inr (v, [])
                    | None \<Rightarrow> Inr (fallback, [ParseWarning]))
              else Inr (fallback, [ParseWarning])))"

text \<open>The comprehension of \<open>_match_images_to_scenes\<close>, lines 105 to 115: one entry for
  each analysed image, numbered from \<open>i\<close>.\<close>

fun images_payload :: "nat \<Rightarrow> json list \<Rightarrow> exn + json list" where
  "images_payload i [] = Inr []"
| "images_payload i (img # imgs) =
     bind_exn (py_get img ''filename'' JNull) (\<lambda>filename.
     bind_exn (py_get img ''description'' JNull) (\<lambda>description.
     bind_exn (py_get img ''aspect_ratio'' JNull) (\<lambda>aspect_ratio.
     bind_exn (py_get img ''width'' JNull) (\<lambda>width.
     bind_exn (py_get img ''height'' JNull) (\<lambda>height.
     bind_exn (images_payload (Suc i) imgs) (\<lambda>rest.
     Inr (JDict [(''id'', JInt (int i)), (''filename'', filename),
                 (''description'', description), (''aspect_ratio'', aspect_ratio),
                 (''width'', width), (''height'', height)] # rest)))))))"

text \<open>\<open>_match_images_to_scenes\<close>. The text of the prompt is not modelled (\<open>json.dumps\<close>
  does not raise on these values); \<open>llm\<close> is what \<open>call_llm\<close> returns or raises in this
  call.\<close>

definition match_images_to_scenes ::
  "loader \<Rightarrow> exn + string \<Rightarrow> json list \<Rightarrow> json \<Rightarrow> json \<Rightarrow> exn + json \<times> log_event list" where
  "match_images_to_scenes loads llm image_analysis scene_requirements creative_brief =
     bind_exn (images_payload 0 image_analysis) (\<lambda>available_images_payload.
     bind_exn llm (\<lambda>response.
     visual_parse_json_response loads response
       (JDict [(''scene_matches'', JList []), (''missing_visuals'', JList [])])))"


section \<open>The quality-assurance agent\<close>

text \<open>\<open>float(x)\<close> on any object; \<open>float_of_str\<close> is the conversion of a string, \<open>None\<close>
  where it raises \<open>ValueError\<close>.\<close>

fun py_float :: "(string \<Rightarrow> real option) \<Rightarrow> json \<Rightarrow> exn + real" where
  "py_float float_of_str (JInt n) = Inr (of_int n)"
| "py_float float_of_str (JFloat r) = Inr r"
| "py_float float_of_str (JBool b) = Inr (if b then 1 else 0)"
| "py_float float_of_str (JStr s) =
     (case float_of_str s of
        Some r \<Rightarrow> Inr r
      | None \<Rightarrow> Inl (ValueError ''could not convert string to float''))"
| "py_float float_of_str v =
     Inl (TypeError ''float() argument must be a string or a real number'')"

text \<open>\<open>x + y\<close> where \<open>x\<close> is a list.\<close>

fun py_concat :: "json list \<Rightarrow> json \<Rightarrow> exn + json" where
  "py_concat xs (JList ys) = Inr (JList (xs @ ys))"
| "py_concat xs v = Inl (TypeError ''can only concatenate list to list'')"

text \<open>\<open>str(n)\<close> for an integer.\<close>

fun str_nat :: "nat \<Rightarrow> string" where
  "str_nat n =
     (if n < 10 then [''0123456789'' ! n]
      else str_nat (n div 10) @ [''0123456789'' ! (n mod 10)])"

declare str_nat.simps [simp del]

definition str_int :: "int \<Rightarrow> string" where
  "str_int i = (if i < 0 then CHR ''-'' # str_nat (nat (- i)) else str_nat (nat i))"

text \<open>\<open>BaseAgent.validate_input\<close>.\<close>

fun validate_input :: "json \<Rightarrow> string list \<Rightarrow> exn + bool" where
  "validate_input input_data [] = Inr True"
| "validate_input input_data (field # fields) =
     bind_exn (py_in field input_data) (\<lambda>present.
       if \<not> present then Inl (ValueError (''Missing required field: '' @ field))
       else validate_input input_data fields)"

text \<open>What a \<open>VideoFileClip\<close> shows of a file: \<open>None\<close> for a duration or a frame rate
  that the library leaves unset.\<close>

record clip =
  clip_duration :: "real option"
  clip_fps :: "real option"
  clip_w :: int
  clip_h :: int
  clip_has_audio :: bool

text \<open>The environment of a quality review: \<open>os.path.exists\<close>, \<open>os.path.getsize\<close> and
  \<open>VideoFileClip\<close> on the object given as path; what \<open>call_llm\<close> returns or raises in
  this review; \<open>json.loads\<close>; \<open>float\<close> on a string; and the text \<open>str\<close> gives for a
  float.\<close>

record qa_env =
  path_exists :: "json \<Rightarrow> exn + bool"
  getsize :: "json \<Rightarrow> exn + nat"
  open_clip :: "json \<Rightarrow> exn + clip"
  llm_response :: "exn + string"
  json_loads :: loader
  float_of_str :: "string \<Rightarrow> real option"
  str_float :: "real \<Rightarrow> string"

text \<open>The delegated calls of a review, in the order they are issued.\<close>

datatype delegated = MediaCall | LLMCall

text \<open>\<open>QAAgent._parse_json_response\<close>.\<close>

definition qa_parse_json_response ::
  "loader \<Rightarrow> string \<Rightarrow> json \<Rightarrow> exn + json \<times> log_event list" where
  "qa_parse_json_response loads response fallback =
     (let cleaned = strip_fences response in
      case loads cleaned of
        Some v \<Rightarrow> Inr (v, [])
      | None \<Rightarrow>
          (let start_idx = py_find cleaned CHR ''{'';
               end_idx = py_rfind cleaned CHR ''}'' + 1
           in if start_idx \<noteq> - 1 \<and> end_idx > start_idx
              then (case loads (py_slice cleaned start_idx end_idx) of
                      Some v \<Rightarrow> Inr (v, [])
                    | None \<Rightarrow> Inr (fallback, [ParseWarning]))
              else Inr (fallback, [ParseWarning])))"

text \<open>The checks against the requirements, lines 95 to 119, once the clip is read:
  the issues they append. Only the first \<open>.get\<close> can raise; the conversions stand in
  \<open>try\<close> statements of their own.\<close>

definition requirement_issues ::
  "qa_env \<Rightarrow> json \<Rightarrow> real \<Rightarrow> real \<Rightarrow> string \<Rightarrow> bool \<Rightarrow> exn + string list" where
  "requirement_issues env requirements duration_seconds fps resolution has_audio =
     bind_exn (py_get requirements ''duration'' JNull) (\<lambda>d1.
     bind_exn (py_get requirements ''target_duration'' JNull) (\<lambda>d2.
     bind_exn (py_get requirements ''resolution'' JNull) (\<lambda>target_resolution.
     bind_exn (py_get requirements ''fps'' JNull) (\<lambda>target_fps.
       let target_duration = py_or d1 d2;
           duration_issue =
             (if target_duration \<noteq> JNull
              then (case py_float (float_of_str env) target_duration of
                      Inr td \<Rightarrow>
                        if \<bar>duration_seconds - td\<bar> > 1
                        then [''Duration mismatch: '' @ str_float env duration_seconds @
                              ''s vs target '' @ str_float env td @ ''s'']
                        else []
                    | Inl e \<Rightarrow> [])
              else []);
           resolution_issue =
             (case target_resolution of
                JStr r \<Rightarrow>
                  if r \<noteq> [] \<and> r \<noteq> resolution
                  then [''Resolution mismatch: '' @ resolution @ '' vs target '' @ r]
                  else []
              | _ \<Rightarrow> []);
           fps_issue =
             (if target_fps \<noteq> JNull
              then (case py_float (float_of_str env) target_fps of
                      Inr tfps \<Rightarrow>
                        if fps \<noteq> 0 \<and> \<bar>fps - tfps\<bar> > 1
                        then [''FPS mismatch: '' @ str_float env fps @ '' vs target '' @
                              str_float env tfps]
                        else []
                    | Inl e \<Rightarrow> [])
              else []);
           audio_issue =
             (if \<not> has_audio
              then [''No audio track detected (missing voiceover/music)''] else [])
       in Inr (duration_issue @ resolution_issue @ fps_issue @ audio_issue)))))"

text \<open>The \<open>try\<close> statement of \<open>_check_technical_quality\<close>, lines 87 to 122: the checks
  and the issues as it leaves them. Whatever is raised inside becomes one more issue.\<close>

definition read_metadata ::
  "qa_env \<Rightarrow> json \<Rightarrow> json \<Rightarrow> (string \<times> json) list \<Rightarrow> string list \<Rightarrow>
     (string \<times> json) list \<times> string list" where
  "read_metadata env video_path requirements checks issues =
     (case open_clip env video_path of
        Inl e \<Rightarrow> (checks, issues @ [''Could not read video metadata: '' @ str_of_exn e])
      | Inr c \<Rightarrow>
          (case clip_duration c of
             None \<Rightarrow>
               (checks, issues @ [''Could not read video metadata: '' @
                  ''float() argument must be a string or a real number''])
           | Some d \<Rightarrow>
               (let duration_seconds = py_round d 2;
                    fps = (case clip_fps c of None \<Rightarrow> 0 | Some f \<Rightarrow> f);
                    resolution = str_int (clip_w c) @ ''x'' @ str_int (clip_h c);
                    checks' = checks @ [(''duration_seconds'', JFloat duration_seconds),
                                        (''fps'', JFloat fps),
                                        (''resolution'', JStr resolution),
                                        (''has_audio'', JBool (clip_has_audio c))]
                in case requirement_issues env requirements duration_seconds fps resolution
                          (clip_has_audio c) of
                     Inl e \<Rightarrow>
                       (checks', issues @ [''Could not read video metadata: '' @ str_of_exn e])
                   | Inr found \<Rightarrow> (checks', issues @ found))))"

text \<open>\<open>_check_technical_quality\<close>: \<open>os.path.getsize\<close> stands outside the \<open>try\<close>
  statement.\<close>

definition check_technical_quality ::
  "qa_env \<Rightarrow> json \<Rightarrow> json \<Rightarrow> (exn + json) \<times> delegated list" where
  "check_technical_quality env video_path requirements =
     (case getsize env video_path of
        Inl e \<Rightarrow> (Inl e, [])
      | Inr size_bytes \<Rightarrow>
          (let file_size_mb = py_round (real size_bytes / (1024 * 1024)) 3;
               checks = [(''file_exists'', JBool True), (''file_size_mb'', JFloat file_size_mb)];
               issues = (if file_size_mb < 1 / 10
                         then [''Video file is too small - may be corrupted'']
                         else if file_size_mb > 200
                         then [''Video file is very large - consider compression'']
                         else []);
               (checks', issues') = read_metadata env video_path requirements checks issues;
               score = (if issues' = [] then 1 else if length issues' \<le> 2 then 3 / 4 else 3 / 5)
           in (Inr (JDict [(''score'', JFloat score),
                           (''checks'', JDict checks'),
                           (''issues'', JList (map JStr issues'))]),
               [MediaCall])))"

text \<open>The sum in \<open>_check_content_quality\<close>, line 197, from the left; \<open>acc\<close> is the
  sum so far.\<close>

fun sum_floats :: "(string \<Rightarrow> real option) \<Rightarrow> json list \<Rightarrow> real \<Rightarrow> exn + real" where
  "sum_floats fos [] acc = Inr acc"
| "sum_floats fos (v # vs) acc = bind_exn (py_float fos v) (\<lambda>x. sum_floats fos vs (acc + x))"

text \<open>Line 197: the average of \<open>scores.values()\<close>; only a dictionary has the method.\<close>

definition average_score :: "qa_env \<Rightarrow> json \<Rightarrow> exn + real" where
  "average_score env scores =
     (case scores of
        JDict d \<Rightarrow>
          bind_exn (sum_floats (float_of_str env) (map snd d) 0) (\<lambda>s. Inr (s / real (length d)))
      | _ \<Rightarrow> Inl (AttributeError ''object has no attribute values''))"

text \<open>Lines 194 to 202: the assessment with its \<open>score\<close>. The handler of the \<open>try\<close>
  statement catches whatever the average raises.\<close>

definition normalize_score :: "qa_env \<Rightarrow> json \<Rightarrow> exn + json" where
  "normalize_score env assessment =
     bind_exn (py_get assessment ''scores'' (JDict [])) (\<lambda>got.
       let scores = py_or got (JDict []) in
       if truthy scores then
         (case average_score env scores of
            Inr avg_score \<Rightarrow>
              py_setitem assessment ''score'' (JFloat (py_round (avg_score / 10) 2))
          | Inl e \<Rightarrow>
              bind_exn (py_get assessment ''score'' (JFloat (1 / 2))) (\<lambda>kept.
                py_setitem assessment ''score'' kept))
       else py_setdefault assessment ''score'' (JFloat (1 / 2)))"

text \<open>\<open>_check_content_quality\<close>; the text of the prompt is not modelled.\<close>

definition check_content_quality ::
  "qa_env \<Rightarrow> json \<Rightarrow> json \<Rightarrow> json \<Rightarrow> (exn + json) \<times> delegated list" where
  "check_content_quality env requirements creative_brief scenes =
     (case llm_response env of
        Inl e \<Rightarrow> (Inl e, [LLMCall])
      | Inr response \<Rightarrow>
          (bind_exn
             (qa_parse_json_response (json_loads env) response
                (JDict [(''score'', JFloat (1 / 2)),
                        (''issues'', JList [JStr ''Could not parse quality assessment'']),
                        (''raw_response'', JStr response),
                        (''scores'', JDict []),
                        (''suggestions'', JList [])]))
             (\<lambda>parsed. normalize_score env (fst parsed)),
           [LLMCall]))"

text \<open>\<open>_calculate_quality_score\<close>.\<close>

definition calculate_quality_score :: "qa_env \<Rightarrow> json \<Rightarrow> json \<Rightarrow> exn + real" where
  "calculate_quality_score env technical_check content_check =
     bind_exn (py_get technical_check ''score'' (JFloat (1 / 2))) (\<lambda>ts.
     bind_exn (py_float (float_of_str env) ts) (\<lambda>technical_score.
     bind_exn (py_get content_check ''score'' (JFloat (1 / 2))) (\<lambda>cs.
     bind_exn (py_float (float_of_str env) cs) (\<lambda>content_score.
     Inr (py_round (technical_score * (3 / 10) + content_score * (7 / 10)) 2)))))"

text \<open>The loop of \<open>_generate_recommendations\<close> over the ratings, lines 231 to 236: the
  recommendations it appends. A rating that \<open>float\<close> rejects is passed over.\<close>

fun aspect_recommendations :: "(string \<Rightarrow> real option) \<Rightarrow> (string \<times> json) list \<Rightarrow> json list" where
  "aspect_recommendations fos [] = []"
| "aspect_recommendations fos (rating # ratings) =
     (case py_float fos (snd rating) of
        Inr x \<Rightarrow>
          if x < 7
          then [JStr (''Improve '' @ map (\<lambda>c. if c = CHR ''_'' then CHR '' '' else c) (fst rating)
                      @ ''.'')]
          else []
      | Inl e \<Rightarrow> []) @ aspect_recommendations fos ratings"

text \<open>The loop that removes repetitions, lines 239 to 242.\<close>

fun dedupe :: "json list \<Rightarrow> json list \<Rightarrow> json list" where
  "dedupe [] deduped = deduped"
| "dedupe (r # rs) deduped =
     dedupe rs (if \<not> py_member r deduped then deduped @ [r] else deduped)"

text \<open>\<open>_generate_recommendations\<close>.\<close>

definition generate_recommendations :: "qa_env \<Rightarrow> json \<Rightarrow> json \<Rightarrow> exn + json" where
  "generate_recommendations env technical_check content_check =
     bind_exn (py_get technical_check ''score'' (JFloat 1)) (\<lambda>ts.
     bind_exn (py_float (float_of_str env) ts) (\<lambda>technical_score.
     bind_exn (py_get content_check ''suggestions'' (JList [])) (\<lambda>sg.
     bind_exn (py_iter (py_or sg (JList []))) (\<lambda>suggestions.
     bind_exn (py_get content_check ''scores'' (JDict [])) (\<lambda>sc.
     bind_exn (case py_or sc (JDict []) of
                 JDict d \<Rightarrow> Inr d
               | _ \<Rightarrow> Inl (AttributeError ''object has no attribute items'')) (\<lambda>scores.
       let recommendations =
             (if technical_score < 8 / 10
              then [JStr ''Review technical video specs (duration, resolution, fps).'',
                    JStr ''Check audio levels and ensure voiceover is present.'',
                    JStr ''Compress or re-export with optimized bitrate if file is too large.'']
              else [])
             @ suggestions
             @ aspect_recommendations (float_of_str env) scores
       in Inr (JList (take 5 (dedupe recommendations [])))))))))"

text \<open>The report for a file that is not there, lines 36 to 43.\<close>

definition missing_report :: json where
  "missing_report =
     JDict [(''approved'', JBool False),
            (''quality_score'', JFloat 0),
            (''issues'', JList [JStr ''Video file not found'']),
            (''recommendations'', JList [JStr ''Regenerate video'']),
            (''technical_check'',
               JDict [(''score'', JFloat 0), (''issues'', JList [JStr ''Missing file''])]),
            (''content_check'',
               JDict [(''score'', JFloat 0), (''issues'', JList [JStr ''No file to review''])])]"

text \<open>Lines 45 to 69 of \<open>process\<close>: the review of a file that exists.\<close>

definition review :: "qa_env \<Rightarrow> json \<Rightarrow> json \<Rightarrow> (exn + json) \<times> delegated list" where
  "review env input_data video_path =
     (case bind_exn (py_get input_data ''original_requirements'' (JDict [])) (\<lambda>r.
             Inr (py_or r (JDict []))) of
        Inl e \<Rightarrow> (Inl e, [])
      | Inr requirements \<Rightarrow>
          (case check_technical_quality env video_path requirements of
             (Inl e, issued) \<Rightarrow> (Inl e, issued)
           | (Inr technical_check, issued) \<Rightarrow>
               (case bind_exn (py_get input_data ''creative_brief'' (JDict [])) (\<lambda>b.
                     bind_exn (py_get input_data ''scenes'' (JList [])) (\<lambda>s.
                     Inr (py_or b (JDict []), py_or s (JList [])))) of
                  Inl e \<Rightarrow> (Inl e, issued)
                | Inr (creative_brief, scenes) \<Rightarrow>
                    (case check_content_quality env requirements creative_brief scenes of
                       (Inl e, issued') \<Rightarrow> (Inl e, issued @ issued')
                     | (Inr content_check, issued') \<Rightarrow>
                         (bind_exn (calculate_quality_score env technical_check content_check)
                            (\<lambda>quality_score.
                          bind_exn (py_get technical_check ''issues'' (JList [])) (\<lambda>ti.
                          bind_exn (py_get content_check ''issues'' (JList [])) (\<lambda>ci.
                          bind_exn (case py_or ti (JList []) of
                                      JList xs \<Rightarrow> py_concat xs (py_or ci (JList []))
                                    | _ \<Rightarrow> Inl (TypeError ''unsupported operand type(s) for +''))
                            (\<lambda>issues.
                          bind_exn (generate_recommendations env technical_check content_check)
                            (\<lambda>recommendations.
                          Inr (JDict [(''approved'', JBool (quality_score \<ge> 8 / 10)),
                                      (''quality_score'', JFloat quality_score),
                                      (''technical_check'', technical_check),
                                      (''content_check'', content_check),
                                      (''issues'', issues),
                                      (''recommendations'', recommendations)])))))),
                          issued @ issued')))))"

text \<open>\<open>QAAgent.process\<close>: the report or the exception, and the delegated calls issued.\<close>

definition qa_process :: "qa_env \<Rightarrow> json \<Rightarrow> (exn + json) \<times> delegated list" where
  "qa_process env input_data =
     (case bind_exn (validate_input input_data [''video_path'']) (\<lambda>checked.
           bind_exn (py_getitem input_data ''video_path'') (\<lambda>video_path.
           bind_exn (path_exists env video_path) (\<lambda>found. Inr (video_path, found)))) of
        Inl e \<Rightarrow> (Inl e, [])
      | Inr (video_path, found) \<Rightarrow>
          if \<not> found then (Inr missing_report, [])
          else review env input_data video_path)"


section \<open>The workflow orchestrator\<close>

text \<open>\<open>self.state\<close>, the dictionary that \<open>__init__\<close> builds, as a record of its four keys.\<close>

record workflow_state =
  status :: string
  current_step :: "string option"
  outputs :: "(string \<times> json) list"
  errors :: "string list"

text \<open>What the run sees of its environment: the six agents' \<open>process\<close> methods, each
  returning a value or raising; the wall-clock seconds between the two readings of the
  clock; the time stamp in the name of the saved file; and the file system under
  \<open>data/output/workflows\<close>, where \<open>write_file path doc\<close> is \<open>None\<close> when \<open>os.makedirs\<close>,
  \<open>open\<close> and \<open>json.dump\<close> succeed and the exception otherwise (a write that raises
  leaves no document behind in the model).\<close>

record run_env =
  creative_director :: "json \<Rightarrow> exn + json"
  script_analyzer :: "json \<Rightarrow> exn + json"
  visual_designer :: "json \<Rightarrow> exn + json"
  audio_producer :: "json \<Rightarrow> exn + json"
  video_editor :: "json \<Rightarrow> exn + json"
  qa_agent :: "json \<Rightarrow> exn + json"
  elapsed_seconds :: real
  timestamp :: string
  write_file :: "string \<Rightarrow> json \<Rightarrow> exn option"

text \<open>The arguments of \<open>generate_advertisement\<close>; \<open>brand_guidelines\<close> is \<open>JNull\<close> for
  \<open>None\<close>.\<close>

record ad_request =
  product_description :: string
  script :: string
  image_paths :: "string list"
  target_audience :: string
  target_duration :: int
  brand_guidelines :: json

text \<open>The orchestrator object and what its runs leave behind: \<open>self.state\<close>, the
  documents written so far (path and content, in the order of writing), and the calls
  of the agents so far with how each ended. The last is bookkeeping of the model, so
  that a property can say which agent ran.\<close>

datatype outcome = Returned | Raising exn

record world =
  state :: workflow_state
  files :: "(string \<times> json) list"
  calls :: "(string \<times> outcome) list"

text \<open>\<open>__init__\<close>, lines 34 to 40.\<close>

definition init_state :: workflow_state where
  "init_state = \<lparr>status = ''initialized'', current_step = None, outputs = [], errors = []\<rparr>"

definition new_orchestrator :: "(string \<times> json) list \<Rightarrow> world" where
  "new_orchestrator fs = \<lparr>state = init_state, files = fs, calls = []\<rparr>"

text \<open>A statement of the run: it changes the world, and returns a value or raises.\<close>

type_synonym 'a action = "world \<Rightarrow> (exn + 'a) \<times> world"

definition bind_action :: "'a action \<Rightarrow> ('a \<Rightarrow> 'b action) \<Rightarrow> 'b action" where
  "bind_action m f w = (case m w of (Inl e, w') \<Rightarrow> (Inl e, w') | (Inr a, w') \<Rightarrow> f a w')"

text \<open>An expression: no effect on the world, but it may raise.\<close>

definition expr :: "exn + 'a \<Rightarrow> 'a action" where
  "expr r w = (r, w)"

text \<open>\<open>self.state["current_step"] = name\<close> and \<open>self.state["outputs"][key] = out\<close>.\<close>

definition set_current_step :: "string \<Rightarrow> unit action" where
  "set_current_step name w = (Inr (), w\<lparr>state := (state w)\<lparr>current_step := Some name\<rparr>\<rparr>)"

definition store_output :: "string \<Rightarrow> json \<Rightarrow> unit action" where
  "store_output key out w =
     (Inr (), w\<lparr>state := (state w)\<lparr>outputs := AList.update key out (outputs (state w))\<rparr>\<rparr>)"

text \<open>\<open>agent.process(inp)\<close>.\<close>

definition invoke :: "string \<Rightarrow> (json \<Rightarrow> exn + json) \<Rightarrow> json \<Rightarrow> json action" where
  "invoke name process inp w =
     (case process inp of
        Inl e \<Rightarrow> (Inl e, w\<lparr>calls := calls w @ [(name, Raising e)]\<rparr>)
      | Inr out \<Rightarrow> (Inr out, w\<lparr>calls := calls w @ [(name, Returned)]\<rparr>))"

text \<open>One step of the pipeline: the step is recorded as current, the input dictionary is
  built (a \<open>.get\<close> on a value that is no dictionary raises), the agent runs, and its
  output is stored under the step's key.\<close>

definition run_step ::
  "string \<Rightarrow> string \<Rightarrow> (json \<Rightarrow> exn + json) \<Rightarrow> exn + json \<Rightarrow> json action" where
  "run_step name key process inp =
     bind_action (set_current_step name) (\<lambda>_.
     bind_action (expr inp) (\<lambda>input_data.
     bind_action (invoke name process input_data) (\<lambda>out.
     bind_action (store_output key out) (\<lambda>_. expr (Inr out)))))"

text \<open>The state as \<open>json.dump\<close> writes it and as the failure result carries it.\<close>

definition state_json :: "workflow_state \<Rightarrow> json" where
  "state_json st =
     JDict [(''status'', JStr (status st)),
            (''current_step'', (case current_step st of None \<Rightarrow> JNull | Some n \<Rightarrow> JStr n)),
            (''outputs'', JDict (outputs st)),
            (''errors'', JList (map JStr (errors st)))]"

text \<open>\<open>_save_workflow_state\<close>: one document, named by the time stamp.\<close>

definition save_workflow_state :: "run_env \<Rightarrow> json \<Rightarrow> unit action" where
  "save_workflow_state env result w =
     (let state_file = ''data/output/workflows/workflow_'' @ timestamp env @ ''.json'';
          doc = JDict [(''state'', state_json (state w)), (''result'', result)]
      in case write_file env state_file doc of
           None \<Rightarrow> (Inr (), w\<lparr>files := files w @ [(state_file, doc)]\<rparr>)
         | Some e \<Rightarrow> (Inl e, w))"

text \<open>The body of the \<open>try\<close> statement of \<open>generate_advertisement\<close>, lines 61 to 181.
  Logging is left out, but for the expressions it evaluates: \<open>len(scenes)\<close> on line 87
  and \<open>qa_result.get\<close> on lines 154 to 158 (where the first call raises if any does).\<close>

definition try_block :: "run_env \<Rightarrow> ad_request \<Rightarrow> json action" where
  "try_block env req =
     bind_action
       (run_step ''creative_direction'' ''creative_brief'' (creative_director env)
          (Inr (JDict [(''product_description'', JStr (product_description req)),
                       (''target_audience'', JStr (target_audience req)),
                       (''brand_guidelines'', brand_guidelines req),
                       (''script'', JStr (script req))])))
       (\<lambda>creative_brief.
     bind_action
       (run_step ''script_analysis'' ''script_analysis'' (script_analyzer env)
          (Inr (JDict [(''script'', JStr (script req)),
                       (''creative_brief'', creative_brief),
                       (''target_duration'', JInt (target_duration req))])))
       (\<lambda>script_analysis.
     bind_action
       (expr (bind_exn (py_get script_analysis ''scenes'' (JList [])) (\<lambda>v.
              bind_exn (py_len (py_or v (JList []))) (\<lambda>n. Inr (py_or v (JList []))))))
       (\<lambda>scenes.
     bind_action
       (run_step ''visual_design'' ''visual_design'' (visual_designer env)
          (Inr (JDict [(''images'', JList (map JStr (image_paths req))),
                       (''scene_requirements'', scenes),
                       (''creative_brief'', creative_brief)])))
       (\<lambda>visual_design.
     bind_action
       (run_step ''audio_production'' ''audio_output'' (audio_producer env)
          (bind_exn (py_get script_analysis ''voiceover_instructions'' (JDict [])) (\<lambda>vi.
           bind_exn (py_get creative_brief ''music_style'' (JStr ''upbeat'')) (\<lambda>ms.
           Inr (JDict [(''script'', JStr (script req)),
                       (''voiceover_instructions'', py_or vi (JDict [])),
                       (''music_style'', ms),
                       (''scenes'', scenes),
                       (''duration'', JInt (target_duration req))])))))
       (\<lambda>audio_output.
     bind_action
       (run_step ''video_editing'' ''video_output'' (video_editor env)
          (bind_exn (py_get visual_design ''scene_visuals'' (JDict [])) (\<lambda>sv.
           bind_exn (py_get visual_design ''image_analysis'' (JList [])) (\<lambda>ia.
           bind_exn (py_get audio_output ''voiceover_path'' JNull) (\<lambda>vp.
           Inr (JDict [(''scenes'', scenes),
                       (''scene_visuals'', sv),
                       (''image_analysis'', ia),
                       (''voiceover_path'', vp),
                       (''fps'', JInt 30)]))))))
       (\<lambda>video_output.
     bind_action (expr (py_get video_output ''video_path'' JNull))
       (\<lambda>video_path.
     bind_action
       (run_step ''quality_assurance'' ''qa_result'' (qa_agent env)
          (Inr (JDict [(''video_path'', video_path),
                       (''original_requirements'',
                          JDict [(''product_description'', JStr (product_description req)),
                                 (''target_audience'', JStr (target_audience req)),
                                 (''duration'', JInt (target_duration req)),
                                 (''resolution'', JStr ''1920x1080''),
                                 (''fps'', JInt 30)]),
                       (''creative_brief'', creative_brief),
                       (''scenes'', scenes)])))
       (\<lambda>qa_result.
     bind_action (expr (py_get qa_result ''approved'' (JBool False)))
       (\<lambda>approved.
     bind_action
       (expr (bind_exn (py_get video_output ''duration'' JNull) (\<lambda>duration.
              bind_exn (py_get qa_result ''quality_score'' JNull) (\<lambda>quality_score.
              bind_exn (py_get qa_result ''approved'' JNull) (\<lambda>approved.
              Inr (JDict [(''success'', JBool True),
                          (''video_path'', video_path),
                          (''duration'', duration),
                          (''quality_score'', quality_score),
                          (''approved'', approved),
                          (''processing_time_seconds'', JFloat (py_round (elapsed_seconds env) 2)),
                          (''metadata'',
                             JDict [(''creative_brief'', creative_brief),
                                    (''scenes'', scenes),
                                    (''qa_report'', qa_result)])]))))))
       (\<lambda>result.
     bind_action (save_workflow_state env result)
       (\<lambda>_. expr (Inr result))))))))))))"

text \<open>\<open>generate_advertisement\<close>: the \<open>try\<close> block and its handler for \<open>Exception\<close>,
  lines 183 to 191. It returns the result and leaves the world changed.\<close>

definition generate_advertisement :: "run_env \<Rightarrow> ad_request \<Rightarrow> world \<Rightarrow> json \<times> world" where
  "generate_advertisement env req w =
     (case try_block env req w of
        (Inr result, w') \<Rightarrow> (result, w')
      | (Inl e, w') \<Rightarrow>
          (let st = (state w')\<lparr>errors := errors (state w') @ [str_of_exn e]\<rparr>
           in (JDict [(''success'', JBool False),
                      (''error'', JStr (str_of_exn e)),
                      (''state'', state_json st)],
               w'\<lparr>state := st\<rparr>)))"

text \<open>\<open>get_status\<close>.\<close>

definition get_status :: "world \<Rightarrow> json" where
  "get_status w =
     JDict [(''status'', JStr (status (state w))),
            (''current_step'', (case current_step (state w) of None \<Rightarrow> JNull | Some n \<Rightarrow> JStr n)),
            (''completed_steps'', JList (map (\<lambda>kv. JStr (fst kv)) (outputs (state w)))),
            (''errors'', JList (map JStr (errors (state w))))]"

text \<open>Consecutive runs on one orchestrator, each in its own environment.\<close>

fun run_all :: "(run_env \<times> ad_request) list \<Rightarrow> world \<Rightarrow> world" where
  "run_all [] w = w"
| "run_all ((env, req) # rs) w = run_all rs (snd (generate_advertisement env req w))"

text \<open>The steps in pipeline order, and the keys their outputs are stored under.\<close>

definition step_names :: "string list" where
  "step_names = [''creative_direction'', ''script_analysis'', ''visual_design'',
                 ''audio_production'', ''video_editing'', ''quality_assurance'']"

definition output_keys :: "string list" where
  "output_keys = [''creative_brief'', ''script_analysis'', ''visual_design'',
                  ''audio_output'', ''video_output'', ''qa_result'']"

text \<open>The keys of a dictionary after an assignment to \<open>key\<close>.\<close>

definition add_key :: "string \<Rightarrow> string list \<Rightarrow> string list" where
  "add_key key ks = (if key \<in> set ks then ks else ks @ [key])"

section \<open>Assertions about a run\<close>

text \<open>Used in the proofs about the orchestrator: what holds of the world after \<open>k\<close>
  steps of a run that began in the world \<open>w0\<close>, and when the \<open>try\<close> block is left.\<close>

definition valid ::
  "(world \<Rightarrow> bool) \<Rightarrow> 'a action \<Rightarrow> ('a \<Rightarrow> world \<Rightarrow> bool) \<Rightarrow> (exn \<Rightarrow> world \<Rightarrow> bool) \<Rightarrow> bool" where
  "valid P m Q E \<longleftrightarrow>
     (\<forall>w. P w \<longrightarrow> (case m w of (Inl e, w') \<Rightarrow> E e w' | (Inr a, w') \<Rightarrow> Q a w'))"

definition returned :: "nat \<Rightarrow> (string \<times> outcome) list" where
  "returned k = map (\<lambda>n. (n, Returned)) (take k step_names)"

definition frame :: "world \<Rightarrow> nat \<Rightarrow> world \<Rightarrow> bool" where
  "frame w0 k w \<longleftrightarrow>
     k \<le> 6 \<and>
     status (state w) = status (state w0) \<and>
     errors (state w) = errors (state w0) \<and>
     files w = files w0 \<and>
     map fst (outputs (state w)) = fold add_key (take k output_keys) (map fst (outputs (state w0)))"

definition after_steps :: "world \<Rightarrow> nat \<Rightarrow> world \<Rightarrow> bool" where
  "after_steps w0 k w \<longleftrightarrow> frame w0 k w \<and> calls w = calls w0 @ returned k"

definition failed :: "world \<Rightarrow> exn \<Rightarrow> world \<Rightarrow> bool" where
  "failed w0 e w \<longleftrightarrow>
     (\<exists>k. frame w0 k w \<and>
        (calls w = calls w0 @ returned k \<or>
         k < 6 \<and> calls w = calls w0 @ returned k @ [(step_names ! k, Raising e)]))"

definition succeeded :: "run_env \<Rightarrow> world \<Rightarrow> json \<Rightarrow> world \<Rightarrow> bool" where
  "succeeded env w0 res w \<longleftrightarrow>
     status (state w) = status (state w0) \<and>
     errors (state w) = errors (state w0) \<and>
     map fst (outputs (state w)) = fold add_key output_keys (map fst (outputs (state w0))) \<and>
     calls w = calls w0 @ returned 6 \<and>
     files w = files w0 @ [(''data/output/workflows/workflow_'' @ timestamp env @ ''.json'',
                           JDict [(''state'', state_json (state w)), (''result'', res)])] \<and>
     py_getitem res ''success'' = Inr (JBool True)"

section \<open>Assertions about a parse\<close>

text \<open>The text that the second attempt of a parsing routine hands to \<open>json.loads\<close>: what
  lies between the first opening and the last closing brace of the cleaned response, if
  there is such a stretch. Both attempts fail when \<open>json.loads\<close> rejects the cleaned
  response and also this stretch, or when there is no such stretch.\<close>

definition second_attempt :: "string \<Rightarrow> string option" where
  "second_attempt cleaned =
     (let start_idx = py_find cleaned CHR ''{'';
          end_idx = py_rfind cleaned CHR ''}'' + 1
      in if start_idx \<noteq> - 1 \<and> end_idx > start_idx
         then Some (py_slice cleaned start_idx end_idx) else None)"

definition both_attempts_fail :: "loader \<Rightarrow> string \<Rightarrow> bool" where
  "both_attempts_fail loads response \<longleftrightarrow>
     loads (strip_fences response) = None \<and>
     (case second_attempt (strip_fences response) of
        None \<Rightarrow> True
      | Some text \<Rightarrow> loads text = None)"


section \<open>Example inputs\<close>


definition scene_a :: json where
  "scene_a = JDict [(''scene_id'', JStr ''scene_1''), (''start_time'', JInt 0),
                    (''end_time'', JInt 20), (''duration'', JInt 20)]"


definition scene_b_adjusted :: "(string \<times> json) list" where
  "scene_b_adjusted = [(''scene_id'', JStr ''scene_2''), (''start_time'', JInt 20),
                       (''end_time'', JFloat 30), (''duration'', JFloat 10)]"







text \<open>Environments of a run: one in which every agent returns, and variants in which
  one agent raises.\<close>

definition demo_env :: run_env where
  "demo_env =
     \<lparr>creative_director = (\<lambda>inp. Inr (JDict [(''music_style'', JStr ''upbeat'')])),
      script_analyzer = (\<lambda>inp. Inr (JDict [(''scenes'', JList [scene_a, JDict scene_b_adjusted]),
                                             (''total_duration'', JInt 30)])),
      visual_designer = (\<lambda>inp. Inr (JDict [(''image_analysis'', JList []),
                                             (''scene_visuals'', JDict [(''scene_matches'', JList [])])])),
      audio_producer = (\<lambda>inp. Inr (JDict [(''voiceover_path'', JStr ''data/output/audio/voiceover_1.mp3'')])),
      video_editor = (\<lambda>inp. Inr (JDict [(''video_path'', JStr ''data/output/videos/ad_1.mp4''),
                                          (''duration'', JFloat 30)])),
      qa_agent = (\<lambda>inp. Inr (JDict [(''approved'', JBool True), (''quality_score'', JFloat (9 / 10))])),
      elapsed_seconds = 25 / 2,
      timestamp = ''20240101_120000'',
      write_file = (\<lambda>path doc. None)\<rparr>"

definition demo_request :: ad_request where
  "demo_request =
     \<lparr>product_description = ''EcoBottle'', script = ''Meet EcoBottle.'',
      image_paths = [''data/input/product_shot.jpg''],
      target_audience = ''General consumers'', target_duration = 30,
      brand_guidelines = JNull\<rparr>"

definition boom :: exn where
  "boom = Raised ''APIError'' ''boom''"

definition bang :: exn where
  "bang = Raised ''APIError'' ''bang''"

definition env_creative_fails :: run_env where
  "env_creative_fails = demo_env\<lparr>creative_director := (\<lambda>inp. Inl bang)\<rparr>"

definition env_script_fails :: run_env where
  "env_script_fails = demo_env\<lparr>script_analyzer := (\<lambda>inp. Inl boom)\<rparr>"

definition env_visual_fails :: run_env where
  "env_visual_fails = demo_env\<lparr>visual_designer := (\<lambda>inp. Inl boom)\<rparr>"

text \<open>A review: the file is there, the clip is as required, and the model answers
  \<open>response\<close>, which \<open>json.loads\<close> reads as \<open>parsed\<close>.\<close>

definition demo_clip :: clip where
  "demo_clip = \<lparr>clip_duration = Some 30, clip_fps = Some 30, clip_w = 1920, clip_h = 1080,
                 clip_has_audio = True\<rparr>"

definition qa_demo_env :: "string \<Rightarrow> json \<Rightarrow> qa_env" where
  "qa_demo_env response parsed =
     \<lparr>path_exists = (\<lambda>p. Inr True),
      getsize = (\<lambda>p. Inr 5242880),
      open_clip = (\<lambda>p. Inr demo_clip),
      llm_response = Inr response,
      json_loads = map_of [(response, parsed)],
      float_of_str = (\<lambda>s. None),
      str_float = (\<lambda>r. ''<float>'')\<rparr>"

definition qa_input :: json where
  "qa_input =
     JDict [(''video_path'', JStr ''data/output/videos/ad_1.mp4''),
            (''original_requirements'',
               JDict [(''product_description'', JStr ''EcoBottle''),
                      (''target_audience'', JStr ''General consumers''),
                      (''duration'', JInt 30),
                      (''resolution'', JStr ''1920x1080''),
                      (''fps'', JInt 30)]),
            (''creative_brief'', JDict [(''music_style'', JStr ''upbeat'')]),
            (''scenes'', JList [scene_a, JDict scene_b_adjusted])]"



definition response_rubric :: string where
  "response_rubric = ''{\"scores\": {\"message_clarity\": 8, \"visual_appeal\": 7, \"brand_alignment\": 9, \"pacing\": 8, \"call_to_action\": 7, \"target_audience_fit\": 8, \"overall_effectiveness\": 8}}''"

definition parsed_rubric :: json where
  "parsed_rubric =
     JDict [(''scores'',
             JDict [(''message_clarity'', JInt 8), (''visual_appeal'', JInt 7),
                    (''brand_alignment'', JInt 9), (''pacing'', JInt 8),
                    (''call_to_action'', JInt 7), (''target_audience_fit'', JInt 8),
                    (''overall_effectiveness'', JInt 8)])]"

definition response_scene_titles :: string where
  "response_scene_titles = ''{\"total_duration\": 30, \"scenes\": [\"Opening shot\"]}''"

definition parsed_scene_titles :: json where
  "parsed_scene_titles =
     JDict [(''total_duration'', JInt 30), (''scenes'', JList [JStr ''Opening shot''])]"

text \<open>An answer of the language model in prose, with no JSON document in it.\<close>

definition response_prose :: string where
  "response_prose = ''I cannot match these images.''"

section \<open>Rounding\<close>




section \<open>Timing validation\<close>

text \<open>The loop over the scenes adds to its accumulator, so the sum over a list that ends
  in a scene is the sum over the scenes before it, continued with that scene.\<close>

lemma sum_durations_shift:
  "sum_durations ss (a + c) = (case sum_durations ss a of Inl e \<Rightarrow> Inl e | Inr t \<Rightarrow> Inr (t + c))"
proof (induction ss arbitrary: a)
  case Nil
  show ?case by simp
next
  case (Cons s ss)
  show ?case
  proof (cases "py_get s ''duration'' JNull")
    case (Inl e)
    then show ?thesis by simp
  next
    case (Inr dur)
    have swap: "a + c + num dur = a + num dur + c" by simp
    from Inr Cons.IH [of "a + num dur"] Cons.IH [of a] show ?thesis
      by (simp add: swap)
  qed
qed








section \<open>The parsing routines\<close>


lemma parse_creative_response_returns:
  "\<exists>brief logged. parse_creative_response loads response = Inr (brief, logged)"
  by (simp add: parse_creative_response_def Let_def split: option.splits)

lemma visual_parse_json_response_returns:
  "\<exists>v logged. visual_parse_json_response loads response fallback = Inr (v, logged)"
  by (simp add: visual_parse_json_response_def Let_def split: option.splits)

lemma qa_parse_json_response_returns:
  "\<exists>v logged. qa_parse_json_response loads response fallback = Inr (v, logged)"
  by (simp add: qa_parse_json_response_def Let_def split: option.splits)

lemma parse_creative_response_keeps_text:
  assumes "both_attempts_fail loads response"
  shows "\<exists>logged. parse_creative_response loads response =
                    Inr (JDict [(''raw_response'', JStr response)], logged)"
  using assms
  by (auto simp: parse_creative_response_def both_attempts_fail_def second_attempt_def Let_def
      split: if_splits)

lemma parse_analysis_response_keeps_text:
  assumes "both_attempts_fail loads response"
  shows "\<exists>logged. parse_analysis_response loads response =
                    Inr (JDict [(''raw_response'', JStr response)], logged)"
  using assms
  by (auto simp: parse_analysis_response_def both_attempts_fail_def second_attempt_def Let_def
      split: if_splits)

lemma qa_parse_json_response_fallback:
  assumes "both_attempts_fail loads response"
  shows "qa_parse_json_response loads response fallback = Inr (fallback, [ParseWarning])"
  using assms
  by (auto simp: qa_parse_json_response_def both_attempts_fail_def second_attempt_def Let_def
      split: if_splits)

lemma visual_parse_json_response_fallback:
  assumes "both_attempts_fail loads response"
  shows "visual_parse_json_response loads response fallback = Inr (fallback, [ParseWarning])"
  using assms
  by (auto simp: visual_parse_json_response_def both_attempts_fail_def second_attempt_def
      Let_def split: if_splits)

lemma check_content_quality_keeps_text:
  assumes "llm_response env = Inr response" and "both_attempts_fail (json_loads env) response"
  shows "fst (check_content_quality env requirements creative_brief scenes) =
           Inr (JDict [(''score'', JFloat (1 / 2)),
                       (''issues'', JList [JStr ''Could not parse quality assessment'']),
                       (''raw_response'', JStr response),
                       (''scores'', JDict []),
                       (''suggestions'', JList [])])"
  using assms
  by (simp add: check_content_quality_def qa_parse_json_response_fallback normalize_score_def
      bind_exn_def py_or_def Let_def)

text \<open>
  Claim C2 fails on the script analyzer: \<open>_parse_analysis_response\<close> calls
  \<open>_validate_timing\<close> inside a \<open>try\<close> statement that catches \<open>json.JSONDecodeError\<close>
  only. A response that is a JSON document but no dictionary of scene dictionaries makes
  the routine raise: the text \<open>5\<close> raises \<open>TypeError\<close>, and an analysis whose scenes
  are strings raises \<open>AttributeError\<close>.
\<close>

theorem parse_analysis_response_raises:
  "parse_analysis_response (map_of [(''5'', JInt 5)]) ''5'' =
     Inl (TypeError ''argument is not iterable'') \<and>
   parse_analysis_response (map_of [(response_scene_titles, parsed_scene_titles)])
     response_scene_titles = Inl (AttributeError ''object has no attribute get'')"
proof -
  have "strip_fences ''5'' = ''5''"
    by (simp add: strip_fences_def strip_def strip_leading_fence_def strip_trailing_fence_def
        is_space_def rstrip_def)
  moreover have "strip_fences response_scene_titles = response_scene_titles"
    by (simp add: response_scene_titles_def strip_fences_def strip_def strip_leading_fence_def
        strip_trailing_fence_def is_space_def rstrip_def)
  ultimately show ?thesis
    by (simp add: parse_analysis_response_def validate_timing_def parsed_scene_titles_def)
qed

text \<open>
  Claim C9 fails on the visual designer: the fallback that \<open>_match_images_to_scenes\<close>
  supplies holds two empty lists and no field for the response, so whenever both parse
  attempts fail the text of the response is lost. (The fallbacks of the creative
  director, the script analyzer and the quality-assurance agent keep it under
  \<open>raw_response\<close>, as the three lemmas above show.)
\<close>

theorem match_images_to_scenes_drops_response:
  assumes "both_attempts_fail loads response"
  shows "match_images_to_scenes loads (Inr response) [] scene_requirements creative_brief =
           Inr (JDict [(''scene_matches'', JList []), (''missing_visuals'', JList [])],
                [ParseWarning]) \<and>
         py_in ''raw_response''
           (JDict [(''scene_matches'', JList []), (''missing_visuals'', JList [])]) = Inr False"
  using assms
  by (simp add: match_images_to_scenes_def visual_parse_json_response_fallback bind_exn_def)

text \<open>A response in prose, with no brace in it, is such a text: the first attempt fails
  and there is no second.\<close>

theorem match_images_to_scenes_drops_response_witness:
  "both_attempts_fail (map_of []) response_prose \<and>
   match_images_to_scenes (map_of []) (Inr response_prose) [] (JList []) (JDict []) =
     Inr (JDict [(''scene_matches'', JList []), (''missing_visuals'', JList [])], [ParseWarning])"
proof -
  have "strip_fences response_prose = response_prose"
    by (simp add: response_prose_def strip_fences_def strip_def strip_leading_fence_def
        strip_trailing_fence_def is_space_def rstrip_def)
  moreover have "second_attempt response_prose = None"
    by (simp add: response_prose_def second_attempt_def py_find_def py_rfind_def)
  ultimately have fail: "both_attempts_fail (map_of []) response_prose"
    by (simp add: both_attempts_fail_def)
  from match_images_to_scenes_drops_response [OF fail] fail show ?thesis
    by simp
qed

section \<open>The quality review\<close>





subsection \<open>Two reviews\<close>







subsection \<open>The score\<close>




subsection \<open>The missing file\<close>

text \<open>
  Claim C8. When the object under \<open>video_path\<close> does not exist on disk, \<open>process\<close>
  returns the report of the missing file and raises nothing, and no delegated call has
  been issued: not approved, a \<open>quality_score\<close> of 0.0, and the one issue \<open>Video file
  not found\<close>.
\<close>

theorem missing_video_report:
  assumes path: "py_getitem input_data ''video_path'' = Inr video_path"
    and missing: "path_exists env video_path = Inr False"
  shows "qa_process env input_data = (Inr missing_report, []) \<and>
         py_getitem missing_report ''approved'' = Inr (JBool False) \<and>
         py_getitem missing_report ''quality_score'' = Inr (JFloat 0) \<and>
         py_getitem missing_report ''issues'' = Inr (JList [JStr ''Video file not found'']) \<and>
         is_substring ''not found'' ''Video file not found''"
proof -
  obtain d where d: "input_data = JDict d" and key: "map_of d ''video_path'' = Some video_path"
    using path by (cases input_data) (auto split: option.splits)
  have "qa_process env input_data = (Inr missing_report, [])"
    using missing by (simp add: qa_process_def d key bind_exn_def)
  then show ?thesis
    by (simp add: missing_report_def)
qed

theorem missing_video_report_witness:
  "path_exists ((qa_demo_env response_rubric parsed_rubric)\<lparr>path_exists := (\<lambda>p. Inr False)\<rparr>)
     (JStr ''data/output/videos/ad_1.mp4'') = Inr False \<and>
   qa_process ((qa_demo_env response_rubric parsed_rubric)\<lparr>path_exists := (\<lambda>p. Inr False)\<rparr>)
     qa_input = (Inr missing_report, [])"
proof -
  let ?env = "(qa_demo_env response_rubric parsed_rubric)\<lparr>path_exists := (\<lambda>p. Inr False)\<rparr>"
  have path: "py_getitem qa_input ''video_path'' = Inr (JStr ''data/output/videos/ad_1.mp4'')"
    by (simp add: qa_input_def)
  have missing: "path_exists ?env (JStr ''data/output/videos/ad_1.mp4'') = Inr False"
    by simp
  from missing_video_report [OF path missing] missing show ?thesis
    by simp
qed

section \<open>The orchestrator\<close>

text \<open>The \<open>try\<close> block is six steps with expressions in between. Each step takes the
  world from \<open>after_steps w0 k\<close> to \<open>after_steps w0 (Suc k)\<close>, or leaves the block with
  \<open>failed w0\<close>; an expression leaves the world as it is.\<close>

lemma valid_bind:
  assumes "valid P m Q E" and "\<And>a. valid (Q a) (f a) R E"
  shows "valid P (bind_action m f) R E"
  using assms unfolding valid_def bind_action_def
  by (fastforce split: prod.splits sum.splits)

lemma valid_expr:
  "valid (after_steps w0 k) (expr r) (\<lambda>a. after_steps w0 k) (failed w0)"
  unfolding valid_def expr_def after_steps_def failed_def
  by (auto split: sum.splits)

lemma valid_run_step:
  assumes k: "k < 6" and name: "name = step_names ! k" and key: "key = output_keys ! k"
  shows "valid (after_steps w0 k) (run_step name key process inp)
           (\<lambda>a. after_steps w0 (Suc k)) (failed w0)"
proof -
  have len: "length output_keys = 6" "length step_names = 6"
    by (simp_all add: output_keys_def step_names_def)
  have keys: "fold add_key (take (Suc k) output_keys) ks = add_key key (fold add_key (take k output_keys) ks)" for ks
    using k len by (simp add: take_Suc_conv_app_nth key)
  have ret: "returned (Suc k) = returned k @ [(name, Returned)]"
    using k len by (simp add: returned_def take_Suc_conv_app_nth name)
  show ?thesis
    unfolding valid_def run_step_def bind_action_def expr_def set_current_step_def
      store_output_def invoke_def after_steps_def failed_def frame_def
    using k
    apply (clarsimp split: sum.splits simp: keys ret AList.update_keys add_key_def name)
    apply (intro conjI impI allI)
    subgoal by (rule exI [of _ k]) simp
    subgoal by (rule exI [of _ k]) simp
    done
qed

lemma six_steps: "Suc (Suc (Suc (Suc (Suc (Suc 0))))) = 6"
  by simp

lemma take_all_keys: "take 6 output_keys = output_keys"
  by (simp add: output_keys_def)

lemma valid_finish:
  "valid (after_steps w0 6)
     (bind_action (expr (bind_exn r1 (\<lambda>duration. bind_exn r2 (\<lambda>quality_score.
                         bind_exn r3 (\<lambda>approved.
                         Inr (JDict ((''success'', JBool True) # rest duration quality_score approved)))))))
        (\<lambda>result. bind_action (save_workflow_state env result) (\<lambda>_. expr (Inr result))))
     (succeeded env w0) (failed w0)"
  unfolding valid_def bind_action_def expr_def bind_exn_def save_workflow_state_def
    after_steps_def failed_def succeeded_def frame_def
  by (auto split: sum.splits option.splits simp: Let_def take_all_keys)

lemma try_block_valid:
  "valid (after_steps w0 0) (try_block env req) (succeeded env w0) (failed w0)"
  unfolding try_block_def
  apply (rule valid_bind, rule valid_run_step [where k = 0]; (simp add: step_names_def output_keys_def)?)
  apply (rule valid_bind, rule valid_run_step [where k = "Suc 0"]; (simp add: step_names_def output_keys_def)?)
  apply (rule valid_bind, rule valid_expr)
  apply (rule valid_bind, rule valid_run_step [where k = "Suc (Suc 0)"]; (simp add: step_names_def output_keys_def)?)
  apply (rule valid_bind, rule valid_run_step [where k = "Suc (Suc (Suc 0))"]; (simp add: step_names_def output_keys_def)?)
  apply (rule valid_bind, rule valid_run_step [where k = "Suc (Suc (Suc (Suc 0)))"]; (simp add: step_names_def output_keys_def)?)
  apply (rule valid_bind, rule valid_expr)
  apply (rule valid_bind, rule valid_run_step [where k = "Suc (Suc (Suc (Suc (Suc 0))))"]; (simp add: step_names_def output_keys_def)?)
  apply (rule valid_bind, rule valid_expr)
  apply (subst six_steps, rule valid_finish)
  done

lemma after_steps_start: "after_steps w 0 w"
  by (simp add: after_steps_def frame_def returned_def)

lemma generate_advertisement_cases:
  assumes "generate_advertisement env req w = (res, w')"
  obtains
    (success) "succeeded env w res w'"
  | (failure) e w1 where "failed w e w1"
      and "w' = w1\<lparr>state := (state w1)\<lparr>errors := errors (state w1) @ [str_of_exn e]\<rparr>\<rparr>"
      and "res = JDict [(''success'', JBool False), (''error'', JStr (str_of_exn e)),
                        (''state'', state_json (state w'))]"
proof (cases "try_block env req w")
  case (Pair r w1)
  have post: "case r of Inl e \<Rightarrow> failed w e w1 | Inr a \<Rightarrow> succeeded env w a w1"
    using try_block_valid [of w env req] after_steps_start [of w] Pair
    by (auto simp: valid_def split: sum.splits)
  show thesis
  proof (cases r)
    case (Inl e)
    with Pair assms post show thesis
      by (intro failure [of e w1]) (auto simp: generate_advertisement_def Let_def)
  next
    case (Inr a)
    with Pair assms post show thesis
      by (intro success) (auto simp: generate_advertisement_def)
  qed
qed

lemma no_raising_in_returned: "(name, Raising e) \<notin> set (returned k)"
  by (auto simp: returned_def)

lemma fold_add_key_distinct: "distinct (pre @ ks) \<Longrightarrow> fold add_key ks pre = pre @ ks"
  by (induction ks arbitrary: pre) (auto simp: add_key_def)

lemma fold_add_key_fresh: "fold add_key (take k output_keys) [] = take k output_keys"
proof -
  have "distinct (take k output_keys)"
    by (rule distinct_take) (simp add: output_keys_def)
  then show ?thesis
    using fold_add_key_distinct [of "[]" "take k output_keys"] by simp
qed


lemma generate_advertisement_status:
  assumes "generate_advertisement env req w = (res, w')"
  shows "status (state w') = status (state w)"
  using assms
proof (cases rule: generate_advertisement_cases)
  case success
  then show ?thesis by (simp add: succeeded_def)
next
  case (failure e w1)
  then show ?thesis by (auto simp: failed_def frame_def)
qed

lemma run_all_status: "status (state (run_all rs w)) = status (state w)"
proof (induction rs arbitrary: w)
  case Nil
  show ?case by simp
next
  case (Cons r rs)
  obtain env req where r: "r = (env, req)" by (cases r)
  have "status (state (snd (generate_advertisement env req w))) = status (state w)"
    using generate_advertisement_status [of env req w] by (cases "generate_advertisement env req w") simp
  with Cons.IH r show ?case by simp
qed

subsection \<open>Four runs\<close>

text \<open>A run in which the visual designer raises, one in which the script analyzer raises,
  a run on the same orchestrator after the latter in which the creative director
  raises, and a run in which every agent returns.\<close>

lemmas run_simps =
  generate_advertisement_def try_block_def run_step_def bind_action_def expr_def
  set_current_step_def store_output_def invoke_def bind_exn_def save_workflow_state_def
  demo_env_def demo_request_def new_orchestrator_def init_state_def py_or_def state_json_def
  env_creative_fails_def env_script_fails_def env_visual_fails_def
  boom_def bang_def Let_def

lemma run_visual_fails:
  "generate_advertisement env_visual_fails demo_request (new_orchestrator []) =
   (JDict [(''success'', JBool False), (''error'', JStr ''boom''),
           (''state'',
            JDict [(''status'', JStr ''initialized''),
                   (''current_step'', JStr ''visual_design''),
                   (''outputs'',
                    JDict [(''creative_brief'', JDict [(''music_style'', JStr ''upbeat'')]),
                           (''script_analysis'',
                            JDict [(''scenes'', JList [scene_a, JDict scene_b_adjusted]),
                                   (''total_duration'', JInt 30)])]),
                   (''errors'', JList [JStr ''boom''])])],
    \<lparr>state = \<lparr>status = ''initialized'', current_step = Some ''visual_design'',
              outputs = [(''creative_brief'', JDict [(''music_style'', JStr ''upbeat'')]),
                         (''script_analysis'',
                          JDict [(''scenes'', JList [scene_a, JDict scene_b_adjusted]),
                                 (''total_duration'', JInt 30)])],
              errors = [''boom'']\<rparr>,
     files = [],
     calls = [(''creative_direction'', Returned), (''script_analysis'', Returned),
              (''visual_design'', Raising boom)]\<rparr>)"
  by (simp add: run_simps)

lemma run_script_fails:
  "generate_advertisement env_script_fails demo_request (new_orchestrator []) =
   (JDict [(''success'', JBool False), (''error'', JStr ''boom''),
           (''state'',
            JDict [(''status'', JStr ''initialized''),
                   (''current_step'', JStr ''script_analysis''),
                   (''outputs'',
                    JDict [(''creative_brief'', JDict [(''music_style'', JStr ''upbeat'')])]),
                   (''errors'', JList [JStr ''boom''])])],
    \<lparr>state = \<lparr>status = ''initialized'', current_step = Some ''script_analysis'',
              outputs = [(''creative_brief'', JDict [(''music_style'', JStr ''upbeat'')])],
              errors = [''boom'']\<rparr>,
     files = [],
     calls = [(''creative_direction'', Returned), (''script_analysis'', Raising boom)]\<rparr>)"
  by (simp add: run_simps)

lemma run_creative_fails_second:
  "generate_advertisement env_creative_fails demo_request
     (run_all [(env_script_fails, demo_request)] (new_orchestrator [])) =
   (JDict [(''success'', JBool False), (''error'', JStr ''bang''),
           (''state'',
            JDict [(''status'', JStr ''initialized''),
                   (''current_step'', JStr ''creative_direction''),
                   (''outputs'',
                    JDict [(''creative_brief'', JDict [(''music_style'', JStr ''upbeat'')])]),
                   (''errors'', JList [JStr ''boom'', JStr ''bang''])])],
    \<lparr>state = \<lparr>status = ''initialized'', current_step = Some ''creative_direction'',
              outputs = [(''creative_brief'', JDict [(''music_style'', JStr ''upbeat'')])],
              errors = [''boom'', ''bang'']\<rparr>,
     files = [],
     calls = [(''creative_direction'', Returned), (''script_analysis'', Raising boom),
              (''creative_direction'', Raising bang)]\<rparr>)"
  unfolding run_all.simps run_script_fails snd_conv
  by (simp add: run_simps)


subsection \<open>The first failure ends the run\<close>

text \<open>
  Claim C1, amended. In a run in which one of the six steps raises, that step is the last
  call of the run and every step before it returned, so no later step runs; the keys of
  the outputs are the keys the state held when the run began, followed by the keys of
  the steps that returned, in execution order, and they are exactly the latter when the
  run began with no outputs, as the first run of an orchestrator does; the message is
  appended to the errors; the result is the failure result that carries the message and
  the state; nothing is written, and no exception leaves the function.
\<close>

theorem halts_on_first_failure:
  assumes run: "generate_advertisement env req w = (res, w')"
    and raised: "(name, Raising e) \<in> set (drop (length (calls w)) (calls w'))"
  shows "\<exists>k<6. name = step_names ! k \<and>
           calls w' = calls w @ map (\<lambda>n. (n, Returned)) (take k step_names) @ [(name, Raising e)] \<and>
           map fst (outputs (state w')) =
             fold add_key (take k output_keys) (map fst (outputs (state w))) \<and>
           (outputs (state w) = [] \<longrightarrow> map fst (outputs (state w')) = take k output_keys) \<and>
           errors (state w') = errors (state w) @ [str_of_exn e] \<and>
           res = JDict [(''success'', JBool False), (''error'', JStr (str_of_exn e)),
                        (''state'', state_json (state w'))] \<and>
           files w' = files w"
  using run
proof (cases rule: generate_advertisement_cases)
  case success
  then have "calls w' = calls w @ returned 6"
    by (simp add: succeeded_def)
  with raised no_raising_in_returned show ?thesis by simp
next
  case (failure e' w1)
  from failure(1) obtain k where fr: "frame w k w1"
    and cs: "calls w1 = calls w @ returned k \<or>
             k < 6 \<and> calls w1 = calls w @ returned k @ [(step_names ! k, Raising e')]"
    by (auto simp: failed_def)
  have calls_eq: "calls w' = calls w1"
    using failure(2) by simp
  from cs raised calls_eq no_raising_in_returned
  have k: "k < 6" and tr: "calls w1 = calls w @ returned k @ [(step_names ! k, Raising e')]"
    and same: "name = step_names ! k" "e = e'"
    by auto
  have keys: "map fst (outputs (state w')) =
                fold add_key (take k output_keys) (map fst (outputs (state w)))"
    using fr failure(2) by (simp add: frame_def)
  have "errors (state w') = errors (state w) @ [str_of_exn e]"
    using fr failure(2) same by (simp add: frame_def)
  moreover have "files w' = files w"
    using fr failure(2) by (simp add: frame_def)
  moreover have "outputs (state w) = [] \<longrightarrow> map fst (outputs (state w')) = take k output_keys"
    using keys by (simp add: fold_add_key_fresh)
  ultimately show ?thesis
    using k tr same keys calls_eq failure(3) by (auto simp: returned_def)
qed

theorem halts_on_first_failure_witness:
  "(''visual_design'', Raising boom) \<in>
     set (calls (snd (generate_advertisement env_visual_fails demo_request (new_orchestrator [])))) \<and>
   (\<exists>k<6. ''visual_design'' = step_names ! k \<and>
      calls (snd (generate_advertisement env_visual_fails demo_request (new_orchestrator []))) =
        map (\<lambda>n. (n, Returned)) (take k step_names) @ [(''visual_design'', Raising boom)] \<and>
      map fst (outputs (state (snd (generate_advertisement env_visual_fails demo_request
                                      (new_orchestrator []))))) = take k output_keys) \<and>
   map fst (outputs (state (snd (generate_advertisement env_visual_fails demo_request
                                   (new_orchestrator []))))) =
     [''creative_brief'', ''script_analysis''] \<and>
   errors (state (snd (generate_advertisement env_visual_fails demo_request
                         (new_orchestrator [])))) = [''boom'']"
proof -
  let ?w = "new_orchestrator []"
  let ?run = "generate_advertisement env_visual_fails demo_request ?w"
  have run: "?run = (fst ?run, snd ?run)" by simp
  have raised: "(''visual_design'', Raising boom) \<in> set (drop (length (calls ?w)) (calls (snd ?run)))"
    unfolding run_visual_fails by (simp add: new_orchestrator_def)
  have fresh: "outputs (state ?w) = []" "calls ?w = []"
    by (simp_all add: new_orchestrator_def init_state_def)
  from halts_on_first_failure [OF run raised] fresh
  have "\<exists>k<6. ''visual_design'' = step_names ! k \<and>
      calls (snd ?run) =
        map (\<lambda>n. (n, Returned)) (take k step_names) @ [(''visual_design'', Raising boom)] \<and>
      map fst (outputs (state (snd ?run))) = take k output_keys"
    by auto
  moreover have "(''visual_design'', Raising boom) \<in> set (calls (snd ?run))"
    and "map fst (outputs (state (snd ?run))) = [''creative_brief'', ''script_analysis'']"
    and "errors (state (snd ?run)) = [''boom'']"
    unfolding run_visual_fails by simp_all
  ultimately show ?thesis by blast
qed

theorem halts_on_first_failure_counterexample:
  "drop (length (calls (run_all [(env_script_fails, demo_request)] (new_orchestrator []))))
     (calls (snd (generate_advertisement env_creative_fails demo_request
                    (run_all [(env_script_fails, demo_request)] (new_orchestrator []))))) =
     [(''creative_direction'', Raising bang)] \<and>
   map fst (outputs (state (snd (generate_advertisement env_creative_fails demo_request
                    (run_all [(env_script_fails, demo_request)] (new_orchestrator []))))))
     = [''creative_brief''] \<and>
   [''creative_brief''] \<noteq> take 0 output_keys"
  unfolding run_creative_fails_second
  by (simp add: run_script_fails)

subsection \<open>What is written\<close>




subsection \<open>One state for all runs\<close>




subsection \<open>The status\<close>

text \<open>
  Claim C10. After any number of runs on one orchestrator the status is the
  \<open>initialized\<close> of the constructor, before and after one more run; \<open>get_status\<close>
  reports it, and so does the state in the failure result of that run.
\<close>

theorem status_stays_initialized:
  assumes run: "generate_advertisement env req (run_all rs (new_orchestrator fs)) = (res, w')"
  shows "status (state (run_all rs (new_orchestrator fs))) = ''initialized'' \<and>
         status (state w') = ''initialized'' \<and>
         py_getitem (get_status w') ''status'' = Inr (JStr ''initialized'') \<and>
         (py_getitem res ''success'' = Inr (JBool False) \<longrightarrow>
            bind_exn (py_getitem res ''state'') (\<lambda>snapshot. py_getitem snapshot ''status'') =
              Inr (JStr ''initialized''))"
proof -
  have before: "status (state (run_all rs (new_orchestrator fs))) = ''initialized''"
    by (simp add: run_all_status new_orchestrator_def init_state_def)
  have after: "status (state w') = ''initialized''"
    using generate_advertisement_status [OF run] before by simp
  have "bind_exn (py_getitem res ''state'') (\<lambda>snapshot. py_getitem snapshot ''status'') =
          Inr (JStr ''initialized'')"
    if "py_getitem res ''success'' = Inr (JBool False)"
    using run
  proof (cases rule: generate_advertisement_cases)
    case success
    with that show ?thesis by (simp add: succeeded_def)
  next
    case (failure e w1)
    with after show ?thesis by (simp add: bind_exn_def state_json_def)
  qed
  with before after show ?thesis
    by (simp add: get_status_def)
qed

theorem status_stays_initialized_witness:
  "py_getitem (fst (generate_advertisement env_creative_fails demo_request
                      (run_all [(env_script_fails, demo_request)] (new_orchestrator []))))
     ''success'' = Inr (JBool False) \<and>
   status (state (snd (generate_advertisement env_creative_fails demo_request
                         (run_all [(env_script_fails, demo_request)] (new_orchestrator []))))) =
     ''initialized'' \<and>
   py_getitem (get_status (snd (generate_advertisement env_creative_fails demo_request
                         (run_all [(env_script_fails, demo_request)] (new_orchestrator [])))))
     ''status'' = Inr (JStr ''initialized'') \<and>
   bind_exn (py_getitem (fst (generate_advertisement env_creative_fails demo_request
                      (run_all [(env_script_fails, demo_request)] (new_orchestrator []))))
               ''state'')
     (\<lambda>snapshot. py_getitem snapshot ''status'') = Inr (JStr ''initialized'')"
proof -
  let ?w = "run_all [(env_script_fails, demo_request)] (new_orchestrator [])"
  let ?run = "generate_advertisement env_creative_fails demo_request ?w"
  have run: "?run = (fst ?run, snd ?run)" by simp
  have failure: "py_getitem (fst ?run) ''success'' = Inr (JBool False)"
    by (subst run_creative_fails_second) simp
  from status_stays_initialized [OF run] failure show ?thesis
    by simp
qed

end
